theory Spec2Isabelle
  imports Complex_Main "HOL-Library.AList"
begin

section \<open>Vesktop screen-share picker: audio source selection and stream quality\<close>

text \<open>
  A shallow embedding of \<^verbatim>\<open>src/renderer/components/ScreenSharePicker.tsx\<close>.
  Every definition below carries the line numbers of the TypeScript it is translated
  from. JavaScript values that the code really handles are kept: a property read of a
  missing key is \<open>undefined\<close>, a template literal renders \<open>undefined\<close> as the text
  "undefined", an empty string is falsy, and a property access on \<open>undefined\<close> throws
  a \<open>TypeError\<close>.
\<close>

subsection \<open>JavaScript values and objects\<close>

text \<open>
  The values stored in a venmic \<open>Node\<close> (\<^verbatim>\<open>Record<string, string>\<close>) are strings, but
  a property that is read from a node lacking it is \<open>undefined\<close>, and the code stores
  such reads back into objects, so both values are modelled.
\<close>

datatype jsval = JUndefined | JStr string

datatype js_error = TypeError

text \<open>Truthiness as tested by \<^verbatim>\<open>if (name)\<close>: \<open>undefined\<close> and the empty string are falsy.\<close>

fun truthy :: "jsval \<Rightarrow> bool" where
  "truthy JUndefined = False"
| "truthy (JStr s) = (s \<noteq> [])"

text \<open>String conversion, as performed inside a template literal.\<close>

fun toString :: "jsval \<Rightarrow> string" where
  "toString JUndefined = ''undefined''"
| "toString (JStr s) = s"

text \<open>
  An object is the list of its own properties in insertion order. \<open>get\<close> is the property
  read \<^verbatim>\<open>o[key]\<close>, \<open>keys\<close> is \<^verbatim>\<open>Object.keys(o)\<close>, and the object literal
  \<^verbatim>\<open>{ ...o, key: v }\<close> is \<^const>\<open>AList.update\<close>: an existing key keeps its position and
  takes the new value, a new key is appended.
\<close>

type_synonym Node = "(string \<times> jsval) list"

definition get :: "Node \<Rightarrow> string \<Rightarrow> jsval" where
  "get obj key = (case map_of obj key of None \<Rightarrow> JUndefined | Some v \<Rightarrow> v)"

definition keys :: "Node \<Rightarrow> string list" where
  "keys obj = map fst obj"

subsection \<open>Audio sources (lines 36-44)\<close>

text \<open>\<^verbatim>\<open>type SpecialSource = "None" | "Entire System"\<close>\<close>

datatype SpecialSource = NoneSource | EntireSystem

fun specialString :: "SpecialSource \<Rightarrow> string" where
  "specialString NoneSource = ''None''"
| "specialString EntireSystem = ''Entire System''"

text \<open>
  \<^verbatim>\<open>type AudioSource = SpecialSource | Node\<close> and
  \<^verbatim>\<open>type AudioSources = SpecialSource | Node[]\<close>. The optional setting
  \<^verbatim>\<open>audioSources?: AudioSources\<close> is an \<open>AudioSources option\<close>, \<open>None\<close> being
  \<open>undefined\<close>.
\<close>

datatype AudioSource = Special SpecialSource | ANode Node

datatype AudioSources = SpecialSel SpecialSource | NodeList "Node list"

record AudioItem =
  name :: jsval
  val :: AudioSource

subsection \<open>Matching (lines 404-406)\<close>

text \<open>
  \<^verbatim>\<open>Object.keys(value).every(key => value[key] === other[key])\<close>. Both sides of
  \<open>===\<close> are strings or \<open>undefined\<close>, on which strict equality is equality of values.
\<close>

definition hasMatchingProps :: "Node \<Rightarrow> Node \<Rightarrow> bool" where
  "hasMatchingProps value other = list_all (\<lambda>key. get value key = get other key) (keys value)"

subsection \<open>Selection state (lines 485-514)\<close>

text \<open>
  \<open>isSelected\<close>, lines 485-495. \<^verbatim>\<open>!audioSources\<close> holds for \<open>undefined\<close> only (an
  array, even an empty one, is truthy, and so are both special strings). When either
  side is a special source the result is \<^verbatim>\<open>audioSources === value\<close>, which is string
  equality for two special sources and false for a string against an object or array.
\<close>

fun isSelected :: "AudioSources option \<Rightarrow> AudioSource \<Rightarrow> bool" where
  "isSelected None v = False"
| "isSelected (Some (SpecialSel s)) (Special v) = (s = v)"
| "isSelected (Some (SpecialSel s)) (ANode v) = False"
| "isSelected (Some (NodeList xs)) (Special v) = False"
| "isSelected (Some (NodeList xs)) (ANode v) = list_ex (\<lambda>source. hasMatchingProps source v) xs"

text \<open>
  \<open>update\<close>, lines 497-514. The result is the argument handed to \<open>setAudioSources\<close>.
  In the removal branch \<^verbatim>\<open>audioSources?.filter(...) ?? "None"\<close> falls back to "None"
  only when the left operand is \<open>undefined\<close> or \<open>null\<close>; an array returned by \<open>filter\<close>
  is neither, also when it is empty. \<^verbatim>\<open>audioSources || []\<close> replaces \<open>undefined\<close> by
  the empty array.
\<close>

fun update :: "AudioSources option \<Rightarrow> AudioSource \<Rightarrow> AudioSources" where
  "update audioSources (Special v) = SpecialSel v"
| "update (Some (SpecialSel s)) (ANode v) = NodeList [v]"
| "update audioSources (ANode v) =
     (if isSelected audioSources (ANode v)
      then (case audioSources of
              Some (NodeList xs) \<Rightarrow> NodeList (filter (\<lambda>x. \<not> hasMatchingProps x v) xs)
            | _ \<Rightarrow> SpecialSel NoneSource)
      else NodeList ((case audioSources of Some (NodeList xs) \<Rightarrow> xs | _ \<Rightarrow> []) @ [v]))"

text \<open>\<open>setAudioSources\<close> (line 392) stores the new selection in the settings.\<close>

definition toggle :: "AudioSources option \<Rightarrow> AudioSource \<Rightarrow> AudioSources option" where
  "toggle audioSources v = Some (update audioSources v)"

subsection \<open>Building the selectable items (lines 408-462)\<close>

text \<open>
  Inside \<open>mapToAudioItem\<close> the array \<open>rtn\<close> only ever holds items whose value is an
  object (line 434 casts \<^verbatim>\<open>first.value as Node\<close>), so the local array is kept as pairs
  of a name and an object, turned into items where the function returns.
\<close>

definition nodeItem :: "jsval \<times> Node \<Rightarrow> AudioItem" where
  "nodeItem p = \<lparr>name = fst p, val = ANode (snd p)\<rparr>"

text \<open>
  The read \<^verbatim>\<open>rtn[0]\<close> at line 433 is \<open>undefined\<close> on an empty array, and line 434
  would then throw; that branch is written out (and shown unreachable below). The
  pushes at lines 428 and 436 are not guarded by a test of \<open>binary\<close> or \<open>pid\<close>; those
  at lines 444 and 456 are guarded by \<open>mediaName\<close> and \<open>mediaClass\<close>.
\<close>

fun mapToAudioItem :: "AudioSource \<Rightarrow> bool \<Rightarrow> js_error + AudioItem list" where
  "mapToAudioItem (Special s) granularSelect =
     Inr [\<lparr>name = JStr (specialString s), val = Special s\<rparr>]"
| "mapToAudioItem (ANode node) granularSelect =
     (let appName = get node ''application.name'';
          rtn0 = (if truthy appName then [(appName, [(''application.name'', appName)])] else [])
      in if \<not> granularSelect then Inr (map nodeItem rtn0)
         else
           let binary = get node ''application.process.binary'';
               rtn1 = (if \<not> truthy appName
                       then rtn0 @ [(binary, [(''application.process.binary'', binary)])]
                       else rtn0);
               pid = get node ''application.process.id''
           in case rtn1 of
                [] \<Rightarrow> Inl TypeError
              | first # _ \<Rightarrow>
                  let firstValues = snd first;
                      rtn2 = rtn1 @
                        [(JStr (toString (fst first) @ '' ('' @ toString pid @ '')''),
                          AList.update ''application.process.id'' pid firstValues)];
                      mediaName = get node ''media.name'';
                      rtn3 = (if truthy mediaName
                              then rtn2 @
                                [(JStr (toString (fst first) @ '' ['' @ toString mediaName @ '']''),
                                  AList.update ''media.name'' mediaName firstValues)]
                              else rtn2);
                      mediaClass = get node ''media.class''
                  in if \<not> truthy mediaClass then Inr (map nodeItem rtn3)
                     else Inr (map nodeItem (rtn3 @
                       [(JStr (toString (fst first) @ '' ['' @ toString mediaClass @ '']''),
                         AList.update ''media.class'' mediaClass firstValues)])))"

subsection \<open>Keeping one item for each label (lines 516-517 and 544-547)\<close>

text \<open>\<^verbatim>\<open>Array.prototype.findIndex\<close>: the index of the first element satisfying the test, or -1.\<close>

fun findIndexFrom :: "('a \<Rightarrow> bool) \<Rightarrow> 'a list \<Rightarrow> int \<Rightarrow> int" where
  "findIndexFrom p [] i = - 1"
| "findIndexFrom p (x # xs) i = (if p x then i else findIndexFrom p xs (i + 1))"

definition findIndex :: "('a \<Rightarrow> bool) \<Rightarrow> 'a list \<Rightarrow> int" where
  "findIndex p xs = findIndexFrom p xs 0"

text \<open>
  \<^verbatim>\<open>Array.prototype.filter\<close> with the three-argument callback
  \<^verbatim>\<open>(value, index, list)\<close>.
\<close>

fun filterFrom :: "('a \<Rightarrow> int \<Rightarrow> 'a list \<Rightarrow> bool) \<Rightarrow> 'a list \<Rightarrow> int \<Rightarrow> 'a list \<Rightarrow> 'a list" where
  "filterFrom f list i [] = []"
| "filterFrom f list i (x # xs) =
     (if f x i list then x # filterFrom f list (i + 1) xs else filterFrom f list (i + 1) xs)"

definition filterIndexed :: "('a \<Rightarrow> int \<Rightarrow> 'a list \<Rightarrow> bool) \<Rightarrow> 'a list \<Rightarrow> 'a list" where
  "filterIndexed f list = filterFrom f list 0 list"

definition uniqueName :: "AudioItem \<Rightarrow> int \<Rightarrow> AudioItem list \<Rightarrow> bool" where
  "uniqueName v index list = (findIndex (\<lambda>x. name x = name v) list = index)"

text \<open>
  \<^verbatim>\<open>allSources.map(target => mapToAudioItem(target, granularSelect)).flat()\<close>
  with \<^verbatim>\<open>allSources = [...specialSources, ...sources.targets]\<close> (lines 479-480, 544-546).
  An exception thrown by one call of the callback ends the whole \<open>map\<close>.
\<close>

definition specialSources :: "SpecialSource list" where
  "specialSources = [NoneSource, EntireSystem]"

fun flatMapItems :: "AudioSource list \<Rightarrow> bool \<Rightarrow> js_error + AudioItem list" where
  "flatMapItems [] granularSelect = Inr []"
| "flatMapItems (t # ts) granularSelect =
     (case mapToAudioItem t granularSelect of
        Inl e \<Rightarrow> Inl e
      | Inr items \<Rightarrow>
          (case flatMapItems ts granularSelect of
             Inl e \<Rightarrow> Inl e
           | Inr rest \<Rightarrow> Inr (items @ rest)))"

definition audioOptions :: "Node list \<Rightarrow> bool \<Rightarrow> js_error + AudioItem list" where
  "audioOptions targets granularSelect =
     (case flatMapItems (map Special specialSources @ map ANode targets) granularSelect of
        Inl e \<Rightarrow> Inl e
      | Inr items \<Rightarrow> Inr (filterIndexed uniqueName items))"

text \<open>
  The same pass in the words of the specification: going through the list once, an item
  is kept when no item before it has its label. It is compared with the code's
  \<open>filterIndexed uniqueName\<close> below.
\<close>

fun keepFirstLabels :: "jsval set \<Rightarrow> AudioItem list \<Rightarrow> AudioItem list" where
  "keepFirstLabels seen [] = []"
| "keepFirstLabels seen (x # xs) =
     (if name x \<in> seen then keepFirstLabels seen xs
      else x # keepFirstLabels (insert (name x) seen) xs)"

subsection \<open>Stream quality (lines 28-29, 46-52, 64, 78-104)\<close>

datatype StreamResolution = R480 | R720 | R1080 | R1440

datatype StreamFps = F15 | F30 | F60

text \<open>\<^verbatim>\<open>Number(s)\<close> on the string literals of the two union types.\<close>

fun NumberResolution :: "StreamResolution \<Rightarrow> int" where
  "NumberResolution R480 = 480"
| "NumberResolution R720 = 720"
| "NumberResolution R1080 = 1080"
| "NumberResolution R1440 = 1440"

fun NumberFps :: "StreamFps \<Rightarrow> int" where
  "NumberFps F15 = 15"
| "NumberFps F30 = 30"
| "NumberFps F60 = 60"

record StreamSettings =
  resolution :: StreamResolution
  fps :: StreamFps
  audio :: bool
  audioSources :: "AudioSources option"
  contentHint :: "string option"

text \<open>
  \<^verbatim>\<open>Math.round(x)\<close> is the integer nearest to \<open>x\<close>, ties going up. The product
  \<^verbatim>\<open>height * (16 / 9)\<close> is taken over the rationals: for the four heights of
  \<open>StreamResolution\<close> the exact product is an integer or an integer plus one third, so
  the rounding error of double arithmetic (below \<open>10\<^sup>-\<^sup>1\<^sup>2\<close> here) never moves it across
  a rounding boundary; \<open>Math_round_stable\<close> below states this.
\<close>

definition Math_round :: "rat \<Rightarrow> int" where
  "Math_round x = \<lfloor>x + 1 / 2\<rfloor>"

text \<open>
  The per-stream options object received by \<open>patchStreamQuality\<close>. A number field that
  is not set is \<open>None\<close>; the sub-objects \<open>encode\<close> and \<open>capture\<close> may be missing.
\<close>

record VideoParams =
  framerate :: "int option"
  width :: "int option"
  height :: "int option"
  pixelCount :: "int option"

record StreamOptions =
  bitrateMin :: "int option"
  bitrateMax :: "int option"
  bitrateTarget :: "int option"
  encode :: "VideoParams option"
  capture :: "VideoParams option"

text \<open>
  \<^verbatim>\<open>Object.assign(target, { framerate, width, height, pixelCount: height * width })\<close>
  on a sub-object: \<open>Object.assign\<close> throws a \<open>TypeError\<close> when the target is \<open>undefined\<close>
  or \<open>null\<close>.
\<close>

definition assignVideo :: "int \<Rightarrow> int \<Rightarrow> int \<Rightarrow> VideoParams \<Rightarrow> VideoParams" where
  "assignVideo fr w h target =
     target\<lparr>framerate := Some fr, width := Some w, height := Some h, pixelCount := Some (h * w)\<rparr>"

text \<open>
  \<open>patchStreamQuality\<close>, lines 78-104, with the module variable \<open>currentSettings\<close> as
  first argument. The object is mutated in place, so the result is the object as the
  call leaves it, together with the exception thrown, if any: the assignments made
  before line 98 stay when line 98 throws.
\<close>

definition patchStreamQuality ::
  "StreamSettings option \<Rightarrow> StreamOptions \<Rightarrow> StreamOptions \<times> js_error option" where
  "patchStreamQuality currentSettings opts =
     (case currentSettings of
        None \<Rightarrow> (opts, None)
      | Some settings \<Rightarrow>
          let fr = NumberFps (fps settings);
              h = NumberResolution (resolution settings);
              w = Math_round (of_int h * (16 / 9));
              opts1 = opts\<lparr>bitrateMin := Some 500000, bitrateMax := Some 8000000,
                           bitrateTarget := Some 600000\<rparr>;
              opts2 = (case encode opts1 of
                         None \<Rightarrow> opts1
                       | Some e \<Rightarrow> opts1\<lparr>encode := Some (assignVideo fr w h e)\<rparr>)
          in (case capture opts2 of
                None \<Rightarrow> (opts2, Some TypeError)
              | Some c \<Rightarrow> (opts2\<lparr>capture := Some (assignVideo fr w h c)\<rparr>, None)))"

subsection \<open>Starting and stopping the capture (lines 107-119 and 129-138)\<close>

datatype virtmic_call = Stop | StartSystem | Start "Node list"

text \<open>
  \<^verbatim>\<open>s.split(":")\<close>: the pieces of \<open>s\<close> between the separators; never an empty array.
\<close>

fun split :: "char \<Rightarrow> string \<Rightarrow> string list" where
  "split c [] = [[]]"
| "split c (x # xs) =
     (if x = c then [] # split c xs
      else (case split c xs of [] \<Rightarrow> [[x]] | w # ws \<Rightarrow> (x # w) # ws))"

text \<open>\<^verbatim>\<open>a.at(-1)\<close>: the last element, \<open>undefined\<close> on an empty array.\<close>

definition at_last :: "string list \<Rightarrow> jsval" where
  "at_last a = (if a = [] then JUndefined else JStr (last a))"

text \<open>
  The \<open>STREAM_CLOSE\<close> subscriber, lines 109-117, as the list of backend calls it makes.
  \<open>currentUserId\<close> is \<^verbatim>\<open>UserStore.getCurrentUser().id\<close>.
\<close>

definition onStreamClose :: "string \<Rightarrow> string \<Rightarrow> virtmic_call list" where
  "onStreamClose currentUserId streamKey =
     (let owner = at_last (split CHR '':'' streamKey)
      in if owner \<noteq> JStr currentUserId then [] else [Stop])"

text \<open>The \<open>submit\<close> callback, lines 129-138, as the list of backend calls it makes.\<close>

fun submit :: "AudioSources option \<Rightarrow> virtmic_call list" where
  "submit None = []"
| "submit (Some (SpecialSel NoneSource)) = []"
| "submit (Some (SpecialSel EntireSystem)) = [StartSystem]"
| "submit (Some (NodeList xs)) = [Start xs]"

subsection \<open>The "Go Live" handler (lines 630-685)\<close>

text \<open>
  What the handler reads of the host's connection objects: the owner of the stream,
  the first entry of \<open>videoStreamParameters\<close> and the video tracks of its input stream.
\<close>

record VideoStreamParameters =
  maxFrameRate :: int
  maxResolutionHeight :: int
  maxResolutionWidth :: int

datatype ConstraintValue =
  CNum int | CText string | CRange int int int | CAdvanced "(int \<times> int) list"

type_synonym Constraints = "(string \<times> ConstraintValue) list"

text \<open>A track, with the value its \<open>getConstraints()\<close> returns.\<close>

record Track =
  getConstraints :: Constraints

record Connection =
  streamUserId :: string
  videoStreamParameters :: "VideoStreamParameters list"
  getVideoTracks :: "Track list"

datatype log_entry = LogInfo string | LogError string

text \<open>Mutating the object returned by \<^verbatim>\<open>[...connections].find(test)\<close> in place.\<close>

fun mutateFirst :: "('a \<Rightarrow> bool) \<Rightarrow> ('a \<Rightarrow> 'a) \<Rightarrow> 'a list \<Rightarrow> 'a list" where
  "mutateFirst test f [] = []"
| "mutateFirst test f (x # xs) = (if test x then f x # xs else x # mutateFirst test f xs)"

text \<open>
  Lines 633-645: the connection of the local user gets the frame rate and resolution.
  Writing to \<^verbatim>\<open>conn.videoStreamParameters[0]\<close> throws when the array is empty; the
  \<open>catch\<close> of line 680 logs that exception.
\<close>

definition patchConnection ::
  "string \<Rightarrow> StreamSettings \<Rightarrow> Connection list \<Rightarrow> js_error + Connection list" where
  "patchConnection currentUserId settings connections =
     (let frameRate = NumberFps (fps settings);
          h = NumberResolution (resolution settings);
          w = Math_round (of_int h * (16 / 9))
      in case find (\<lambda>connection. streamUserId connection = currentUserId) connections of
           None \<Rightarrow> Inr connections
         | Some conn \<Rightarrow>
             (case videoStreamParameters conn of
                [] \<Rightarrow> Inl TypeError
              | p # ps \<Rightarrow>
                  Inr (mutateFirst (\<lambda>connection. streamUserId connection = currentUserId)
                         (\<lambda>c. c\<lparr>videoStreamParameters :=
                                 p\<lparr>maxFrameRate := frameRate, maxResolutionHeight := h,
                                   maxResolutionWidth := w\<rparr> # ps\<rparr>)
                         connections)))"

text \<open>The object literal of lines 660-667, built on a copy of the track's constraints.\<close>

definition newConstraints :: "Track \<Rightarrow> int \<Rightarrow> int \<Rightarrow> int \<Rightarrow> Constraints" where
  "newConstraints track frameRate w h =
     AList.update ''resizeMode'' (CText ''none'')
       (AList.update ''advanced'' (CAdvanced [(w, h)])
         (AList.update ''height'' (CRange 480 h h)
           (AList.update ''width'' (CRange 640 w w)
             (AList.update ''frameRate'' (CNum frameRate) (getConstraints track)))))"

text \<open>
  The callback given to \<open>setTimeout\<close>, lines 652-679. It is an \<open>async\<close> function, so an
  exception that leaves it rejects the promise it returns: the result is either that
  exception (\<open>Inl\<close>) or the lines logged by a run that completes (\<open>Inr\<close>).
  \<open>applyConstraints\<close> tells whether the browser accepts the constraints on the track
  (the awaited promise resolves) or not (it rejects, inside the \<open>try\<close> of line 669).
  The read \<^verbatim>\<open>getVideoTracks()[0]\<close> is \<open>undefined\<close> on an empty array, and
  \<^verbatim>\<open>track.getConstraints()\<close> at line 661 stands before that \<open>try\<close>.
\<close>

definition applyConstraintsLater ::
  "(Track \<Rightarrow> Constraints \<Rightarrow> bool) \<Rightarrow> string \<Rightarrow> StreamSettings \<Rightarrow> Connection list
     \<Rightarrow> js_error + log_entry list" where
  "applyConstraintsLater applyConstraints currentUserId settings connections =
     (let frameRate = NumberFps (fps settings);
          h = NumberResolution (resolution settings);
          w = Math_round (of_int h * (16 / 9))
      in case find (\<lambda>connection. streamUserId connection = currentUserId) connections of
           None \<Rightarrow> Inr []
         | Some conn \<Rightarrow>
             (case getVideoTracks conn of
                [] \<Rightarrow> Inl TypeError
              | track # _ \<Rightarrow>
                  if applyConstraints track (newConstraints track frameRate w h)
                  then Inr [LogInfo ''Applied constraints successfully. New constraints:'']
                  else Inr [LogError ''Failed to apply constraints.'']))"

section \<open>Properties\<close>

subsection \<open>Matching\<close>

lemma hasMatchingProps_iff:
  "hasMatchingProps p t = (\<forall>key \<in> set (keys p). get p key = get t key)"
  by (simp add: hasMatchingProps_def list_all_iff)

lemma hasMatchingProps_refl: "hasMatchingProps v v"
  by (simp add: hasMatchingProps_iff)

lemma get_update_other: "k \<noteq> key \<Longrightarrow> get (AList.update k v t) key = get t key"
  by (simp add: get_def update_conv')

lemma hasMatchingProps_update_other:
  assumes "k \<notin> set (keys p)"
  shows "hasMatchingProps p (AList.update k v t) = hasMatchingProps p t"
proof -
  have "get (AList.update k v t) key = get t key" if "key \<in> set (keys p)" for key
    using that assms by (intro get_update_other) auto
  then show ?thesis by (simp add: hasMatchingProps_iff)
qed

text \<open>
  On a pattern all of whose values are strings, matching is inclusion of the pattern,
  read as a finite map, in the other object.
\<close>

lemma hasMatchingProps_map_le:
  assumes "JUndefined \<notin> snd ` set p"
  shows "hasMatchingProps p t = (map_of p \<subseteq>\<^sub>m map_of t)"
proof
  assume m: "hasMatchingProps p t"
  show "map_of p \<subseteq>\<^sub>m map_of t"
    unfolding map_le_def
  proof
    fix k assume "k \<in> dom (map_of p)"
    then obtain v where v: "map_of p k = Some v" by auto
    then have mem: "(k, v) \<in> set p" by (rule map_of_SomeD)
    then have "v \<noteq> JUndefined" using assms by force
    moreover have "k \<in> set (keys p)" using mem by (force simp: keys_def)
    then have "get p k = get t k" using m by (simp add: hasMatchingProps_iff)
    ultimately show "map_of p k = map_of t k"
      using v by (auto simp: get_def split: option.splits)
  qed
next
  assume le: "map_of p \<subseteq>\<^sub>m map_of t"
  show "hasMatchingProps p t"
    unfolding hasMatchingProps_iff
  proof
    fix k assume "k \<in> set (keys p)"
    then have "k \<in> dom (map_of p)" by (simp add: keys_def dom_map_of_conv_image_fst)
    then have "map_of p k = map_of t k" using le by (simp add: map_le_def)
    then show "get p k = get t k" by (simp add: get_def)
  qed
qed

text \<open>
  Claim C5. \<open>hasMatchingProps p t\<close> holds exactly when every key of \<open>p\<close> reads the same
  value in \<open>t\<close> as in \<open>p\<close>. Keys of \<open>t\<close> that \<open>p\<close> does not have are ignored: setting
  such a key in \<open>t\<close> never changes the result. For a pattern whose values are all
  strings this is inclusion of \<open>p\<close> in \<open>t\<close> as maps. The relation is not symmetric: a
  pattern with the name only matches the pattern with name and process id, and not
  the other way round.
\<close>

theorem hasMatchingProps_subset_check:
  "(hasMatchingProps p t \<longleftrightarrow> (\<forall>key \<in> set (keys p). get p key = get t key)) \<and>
   (k \<notin> set (keys p) \<longrightarrow> hasMatchingProps p (AList.update k v t) = hasMatchingProps p t) \<and>
   (JUndefined \<notin> snd ` set p \<longrightarrow> (hasMatchingProps p t \<longleftrightarrow> map_of p \<subseteq>\<^sub>m map_of t)) \<and>
   (hasMatchingProps [(''application.name'', JStr ''Firefox'')]
      [(''application.name'', JStr ''Firefox''), (''application.process.id'', JStr ''42'')] \<and>
    \<not> hasMatchingProps
      [(''application.name'', JStr ''Firefox''), (''application.process.id'', JStr ''42'')]
      [(''application.name'', JStr ''Firefox'')])"
proof (intro conjI impI)
  show "hasMatchingProps p t \<longleftrightarrow> (\<forall>key \<in> set (keys p). get p key = get t key)"
    by (rule hasMatchingProps_iff)
next
  assume "k \<notin> set (keys p)"
  then show "hasMatchingProps p (AList.update k v t) = hasMatchingProps p t"
    by (rule hasMatchingProps_update_other)
next
  assume "JUndefined \<notin> snd ` set p"
  then show "hasMatchingProps p t \<longleftrightarrow> map_of p \<subseteq>\<^sub>m map_of t"
    by (rule hasMatchingProps_map_le)
next
  show "hasMatchingProps [(''application.name'', JStr ''Firefox'')]
      [(''application.name'', JStr ''Firefox''), (''application.process.id'', JStr ''42'')]"
    by (simp add: hasMatchingProps_def keys_def get_def)
next
  show "\<not> hasMatchingProps
      [(''application.name'', JStr ''Firefox''), (''application.process.id'', JStr ''42'')]
      [(''application.name'', JStr ''Firefox'')]"
    by (simp add: hasMatchingProps_def keys_def get_def)
qed

theorem hasMatchingProps_subset_check_witness:
  "''application.process.id'' \<notin> set (keys [(''application.name'', JStr ''Firefox'')]) \<and>
   JUndefined \<notin> snd ` set [(''application.name'', JStr ''Firefox'')] \<and>
   hasMatchingProps [(''application.name'', JStr ''Firefox'')]
     (AList.update ''application.process.id'' (JStr ''42'')
        [(''application.name'', JStr ''Firefox'')]) \<and>
   map_of [(''application.name'', JStr ''Firefox'')] \<subseteq>\<^sub>m
     map_of [(''application.name'', JStr ''Firefox'')]"
  using hasMatchingProps_subset_check
    [of "[(''application.name'', JStr ''Firefox'')]" "[(''application.name'', JStr ''Firefox'')]"
        "''application.process.id''" "JStr ''42''"]
  by (simp add: keys_def get_def)

subsection \<open>Selection\<close>

text \<open>
  Claim C6. Whatever the current selection is, \<open>update\<close> with a special source makes
  that special source the selection; and when the current selection is a special
  source, \<open>update\<close> with a node makes the selection the one-element list of that node.
\<close>

theorem update_special_replaces:
  "update cur (Special m) = SpecialSel m \<and>
   toggle cur (Special m) = Some (SpecialSel m) \<and>
   update (Some (SpecialSel m)) (ANode v) = NodeList [v] \<and>
   toggle (Some (SpecialSel m)) (ANode v) = Some (NodeList [v])"
  by (simp add: toggle_def)

text \<open>
  Claim C10. With the empty list stored as selection, \<open>isSelected\<close> is false for every
  candidate, and \<open>update\<close> with a node gives the one-element list of that node, from
  the empty list as well as from the selection that was never set.
\<close>

theorem update_from_empty_list:
  "\<not> isSelected (Some (NodeList [])) candidate \<and>
   update (Some (NodeList [])) (ANode v) = NodeList [v] \<and>
   update None (ANode v) = NodeList [v]"
  by (cases candidate) simp_all

text \<open>
  What the removal branch (lines 508-511) does for every selection in which the node
  is selected: the selection is a list of nodes, and \<open>update\<close> returns that list without
  the entries that match the node, the others kept in their order; afterwards the node
  is not selected any more.
\<close>

lemma update_selected_filters:
  assumes sel: "isSelected cur (ANode v)"
  shows "\<exists>xs. cur = Some (NodeList xs) \<and>
           update cur (ANode v) = NodeList (filter (\<lambda>x. \<not> hasMatchingProps x v) xs) \<and>
           \<not> isSelected (toggle cur (ANode v)) (ANode v)"
proof (cases cur)
  case None
  with sel show ?thesis by simp
next
  case (Some a)
  show ?thesis
  proof (cases a)
    case (SpecialSel s)
    with Some sel show ?thesis by simp
  next
    case (NodeList xs)
    with Some sel show ?thesis
      by (auto simp: toggle_def list_ex_iff)
  qed
qed

text \<open>
  The fallback \<^verbatim>\<open>?? "None"\<close> written in that branch never takes effect: whenever the
  branch is entered, what \<open>update\<close> returns is a list and not the special source "None".
\<close>

lemma update_selected_never_None:
  assumes "isSelected cur (ANode v)"
  shows "update cur (ANode v) \<noteq> SpecialSel NoneSource"
  using update_selected_filters[OF assms] by auto

text \<open>
  Claim C1, at the input where the code departs from it. The selection holds the single
  entry "Firefox", which is selected, and \<open>update\<close> is called with that entry. The
  removal empties the list, and the result is the empty list, not the special source
  "None": \<open>filter\<close> returns an array, which the \<^verbatim>\<open>?? "None"\<close> of line 509 lets through.
  In the same way two updates with "Firefox" from the selection never set end in the
  empty list. The code uses "None" for the state with nothing selected everywhere
  else (the reset at line 235, the default option at line 551, the guard of \<open>submit\<close> at
  line 131); the empty list passes that guard, so \<open>submit\<close> starts the backend with no
  node where it makes no call for "None".
\<close>

theorem update_last_entry_removed:
  "isSelected (Some (NodeList [[(''application.name'', JStr ''Firefox'')]]))
     (ANode [(''application.name'', JStr ''Firefox'')]) \<and>
   update (Some (NodeList [[(''application.name'', JStr ''Firefox'')]]))
     (ANode [(''application.name'', JStr ''Firefox'')]) = NodeList [] \<and>
   toggle (toggle None (ANode [(''application.name'', JStr ''Firefox'')]))
     (ANode [(''application.name'', JStr ''Firefox'')]) = Some (NodeList []) \<and>
   toggle (toggle None (ANode [(''application.name'', JStr ''Firefox'')]))
     (ANode [(''application.name'', JStr ''Firefox'')]) \<noteq> Some (SpecialSel NoneSource) \<and>
   submit (toggle (toggle None (ANode [(''application.name'', JStr ''Firefox'')]))
     (ANode [(''application.name'', JStr ''Firefox'')])) = [Start []] \<and>
   submit (Some (SpecialSel NoneSource)) = []"
  by (simp add: toggle_def hasMatchingProps_def keys_def get_def)

text \<open>A selection left as the empty list is handed to the backend as it is.\<close>

lemma submit_empty_list: "submit (Some (NodeList [])) = [Start []]"
  by simp

subsection \<open>Building the items\<close>

text \<open>The read of \<open>rtn[0]\<close> never fails: \<open>mapToAudioItem\<close> always returns a list.\<close>

lemma mapToAudioItem_total: "\<exists>items. mapToAudioItem src g = Inr items"
  by (cases src) (auto simp: Let_def split: list.splits)

lemma flatMapItems_total: "\<exists>items. flatMapItems ts g = Inr items"
proof (induction ts)
  case Nil
  show ?case by simp
next
  case (Cons t ts)
  obtain a where "mapToAudioItem t g = Inr a"
    using mapToAudioItem_total by blast
  with Cons show ?case by auto
qed

text \<open>
  The example of the specification: a node with name "Firefox" and process id "42"
  gives the two items "Firefox" and "Firefox (42)", the name being a key of both.
\<close>

lemma mapToAudioItem_Firefox_42:
  "mapToAudioItem
     (ANode [(''application.name'', JStr ''Firefox''), (''application.process.id'', JStr ''42'')])
     True =
   Inr [\<lparr>name = JStr ''Firefox'', val = ANode [(''application.name'', JStr ''Firefox'')]\<rparr>,
        \<lparr>name = JStr ''Firefox (42)'',
         val = ANode [(''application.name'', JStr ''Firefox''),
                      (''application.process.id'', JStr ''42'')]\<rparr>]"
  by (simp add: get_def nodeItem_def Let_def)

text \<open>
  With granular selection, a node that has a name always yields the item with the
  process id as its second item, whatever the value read for the process id is.
\<close>

lemma mapToAudioItem_pid_item:
  assumes "truthy (get node ''application.name'')"
  shows "\<exists>rest. mapToAudioItem (ANode node) True =
     Inr (\<lparr>name = get node ''application.name'',
            val = ANode [(''application.name'', get node ''application.name'')]\<rparr> #
          \<lparr>name = JStr (toString (get node ''application.name'') @ '' ('' @
                   toString (get node ''application.process.id'') @ '')''),
            val = ANode [(''application.name'', get node ''application.name''),
                         (''application.process.id'', get node ''application.process.id'')]\<rparr> #
          rest)"
  using assms by (simp add: Let_def nodeItem_def)

text \<open>
  Claim C2, at the input where the code departs from it. The node has the name
  "Firefox" and no process id. The item for the process id is built all the same
  (line 436 has no test of \<open>pid\<close>, where lines 443 and 452 test \<open>mediaName\<close> and
  \<open>mediaClass\<close>): its label is "Firefox (undefined)" and its pattern holds the key
  \<open>application.process.id\<close> with the value \<open>undefined\<close>.
\<close>

theorem mapToAudioItem_pid_absent:
  "mapToAudioItem (ANode [(''application.name'', JStr ''Firefox'')]) True =
   Inr [\<lparr>name = JStr ''Firefox'', val = ANode [(''application.name'', JStr ''Firefox'')]\<rparr>,
        \<lparr>name = JStr ''Firefox (undefined)'',
         val = ANode [(''application.name'', JStr ''Firefox''),
                      (''application.process.id'', JUndefined)]\<rparr>]"
  by (simp add: get_def nodeItem_def Let_def)

subsection \<open>One item for each label\<close>

lemma findIndexFrom_skip:
  "\<forall>x \<in> set pre. \<not> p x \<Longrightarrow>
   findIndexFrom p (pre @ ys) i = findIndexFrom p ys (i + int (length pre))"
  by (induction pre arbitrary: i) (auto simp: algebra_simps)

lemma findIndexFrom_hit:
  "\<exists>x \<in> set pre. p x \<Longrightarrow> findIndexFrom p (pre @ ys) i < i + int (length pre)"
proof (induction pre arbitrary: i)
  case Nil
  then show ?case by simp
next
  case (Cons a pre)
  show ?case
  proof (cases "p a")
    case True
    then show ?thesis by simp
  next
    case False
    with Cons.prems have "\<exists>x \<in> set pre. p x" by simp
    from Cons.IH[OF this, of "i + 1"] False show ?thesis by simp
  qed
qed

text \<open>
  The test \<open>uniqueName\<close> at the position of an item says that no earlier item has
  its label.
\<close>

lemma uniqueName_iff:
  "uniqueName v (int (length pre)) (pre @ v # rest) \<longleftrightarrow> name v \<notin> name ` set pre"
proof (cases "\<exists>x \<in> set pre. name x = name v")
  case True
  then obtain x where x: "x \<in> set pre" "name x = name v" by blast
  from x(1) have "name x \<in> name ` set pre" by (rule imageI)
  with x(2) have seen: "name v \<in> name ` set pre" by simp
  from findIndexFrom_hit[of pre "\<lambda>x. name x = name v" "v # rest" 0, OF True]
  have "findIndex (\<lambda>x. name x = name v) (pre @ v # rest) < int (length pre)"
    by (simp add: findIndex_def)
  with seen show ?thesis by (simp add: uniqueName_def)
next
  case False
  then have "\<forall>x \<in> set pre. \<not> name x = name v" by simp
  from findIndexFrom_skip[OF this, of "v # rest" 0]
  have "findIndex (\<lambda>x. name x = name v) (pre @ v # rest) = int (length pre)"
    by (simp add: findIndex_def)
  with False show ?thesis by (auto simp: uniqueName_def)
qed

lemma filterFrom_uniqueName:
  "filterFrom uniqueName (pre @ rest) (int (length pre)) rest =
   keepFirstLabels (name ` set pre) rest"
proof (induction rest arbitrary: pre)
  case Nil
  show ?case by simp
next
  case (Cons x rest)
  have "filterFrom uniqueName ((pre @ [x]) @ rest) (int (length (pre @ [x]))) rest =
        keepFirstLabels (name ` set (pre @ [x])) rest"
    by (rule Cons.IH)
  then have step: "filterFrom uniqueName (pre @ x # rest) (int (length pre) + 1) rest =
        keepFirstLabels (insert (name x) (name ` set pre)) rest"
    by (simp add: add.commute)
  have absorb: "name x \<in> name ` set pre \<Longrightarrow> insert (name x) (name ` set pre) = name ` set pre"
    by auto
  show ?case
    using step absorb by (simp add: uniqueName_iff)
qed

text \<open>The code's pass computes what the specification describes.\<close>

lemma filterIndexed_uniqueName: "filterIndexed uniqueName items = keepFirstLabels {} items"
  using filterFrom_uniqueName[of "[]" items] by (simp add: filterIndexed_def)

lemma keepFirstLabels_names: "name ` set (keepFirstLabels seen xs) = name ` set xs - seen"
  by (induction xs arbitrary: seen) auto

lemma keepFirstLabels_distinct: "distinct (map name (keepFirstLabels seen xs))"
proof (induction xs arbitrary: seen)
  case Nil
  show ?case by simp
next
  case (Cons x xs)
  have "name x \<notin> name ` set (keepFirstLabels (insert (name x) seen) xs)"
    by (simp add: keepFirstLabels_names)
  with Cons show ?case by simp
qed

lemma keepFirstLabels_first:
  "it \<in> set (keepFirstLabels seen xs) \<Longrightarrow> find (\<lambda>x. name x = name it) xs = Some it"
proof (induction xs arbitrary: seen)
  case Nil
  then show ?case by simp
next
  case (Cons x xs)
  show ?case
  proof (cases "name x \<in> seen")
    case True
    with Cons.prems have mem: "it \<in> set (keepFirstLabels seen xs)" by simp
    then have "name it \<in> name ` set (keepFirstLabels seen xs)" by (rule imageI)
    then have "name it \<notin> seen" by (simp add: keepFirstLabels_names)
    with True have "name x \<noteq> name it" by auto
    with Cons.IH[OF mem] show ?thesis by simp
  next
    case False
    with Cons.prems consider "it = x" | "it \<in> set (keepFirstLabels (insert (name x) seen) xs)"
      by auto
    then show ?thesis
    proof cases
      case 1
      then show ?thesis by simp
    next
      case 2
      then have "name it \<in> name ` set (keepFirstLabels (insert (name x) seen) xs)"
        by (rule imageI)
      then have "name x \<noteq> name it" by (auto simp: keepFirstLabels_names)
      with Cons.IH[OF 2] show ?thesis by simp
    qed
  qed
qed

lemma audioOptions_filter:
  "\<exists>flat. flatMapItems (map Special specialSources @ map ANode targets) g = Inr flat \<and>
          audioOptions targets g = Inr (filterIndexed uniqueName flat)"
proof -
  obtain flat where "flatMapItems (map Special specialSources @ map ANode targets) g = Inr flat"
    using flatMapItems_total by blast
  then show ?thesis by (simp add: audioOptions_def)
qed

text \<open>
  Claim C7. In the list left by \<open>filter(uniqueName)\<close> no label occurs twice, every
  label of the flattened list is still there, and each item kept is the first item of
  the flattened list that has its label: a later item with the same label is dropped,
  whatever its pattern is. The options shown are this pass applied to the flattened
  items of the two special sources and of all nodes.
\<close>

theorem uniqueName_keeps_first:
  "distinct (map name (filterIndexed uniqueName items)) \<and>
   name ` set (filterIndexed uniqueName items) = name ` set items \<and>
   (\<forall>it \<in> set (filterIndexed uniqueName items).
      find (\<lambda>x. name x = name it) items = Some it) \<and>
   (\<exists>flat. flatMapItems (map Special specialSources @ map ANode targets) g = Inr flat \<and>
      audioOptions targets g = Inr (filterIndexed uniqueName flat))"
proof (intro conjI)
  show "distinct (map name (filterIndexed uniqueName items))"
    by (simp add: filterIndexed_uniqueName keepFirstLabels_distinct)
next
  show "name ` set (filterIndexed uniqueName items) = name ` set items"
    by (simp add: filterIndexed_uniqueName keepFirstLabels_names)
next
  show "\<forall>it \<in> set (filterIndexed uniqueName items).
      find (\<lambda>x. name x = name it) items = Some it"
    by (simp add: filterIndexed_uniqueName keepFirstLabels_first)
next
  show "\<exists>flat. flatMapItems (map Special specialSources @ map ANode targets) g = Inr flat \<and>
      audioOptions targets g = Inr (filterIndexed uniqueName flat)"
    by (rule audioOptions_filter)
qed

theorem uniqueName_keeps_first_witness:
  "\<lparr>name = JStr ''A [B]'',
     val = ANode [(''application.name'', JStr ''A''), (''media.name'', JStr ''B'')]\<rparr>
     \<in> set (filterIndexed uniqueName
        [\<lparr>name = JStr ''A [B]'',
           val = ANode [(''application.name'', JStr ''A''), (''media.name'', JStr ''B'')]\<rparr>,
         \<lparr>name = JStr ''A [B]'',
           val = ANode [(''application.name'', JStr ''A''), (''media.class'', JStr ''B'')]\<rparr>]) \<and>
   filterIndexed uniqueName
        [\<lparr>name = JStr ''A [B]'',
           val = ANode [(''application.name'', JStr ''A''), (''media.name'', JStr ''B'')]\<rparr>,
         \<lparr>name = JStr ''A [B]'',
           val = ANode [(''application.name'', JStr ''A''), (''media.class'', JStr ''B'')]\<rparr>] =
     [\<lparr>name = JStr ''A [B]'',
        val = ANode [(''application.name'', JStr ''A''), (''media.name'', JStr ''B'')]\<rparr>]"
  using uniqueName_keeps_first
    [of "[\<lparr>name = JStr ''A [B]'',
            val = ANode [(''application.name'', JStr ''A''), (''media.name'', JStr ''B'')]\<rparr>,
          \<lparr>name = JStr ''A [B]'',
            val = ANode [(''application.name'', JStr ''A''), (''media.class'', JStr ''B'')]\<rparr>]"]
  by (simp add: filterIndexed_def uniqueName_def findIndex_def)

text \<open>
  Two nodes named "Chrome" give one item "Chrome", the one built from the first node.
\<close>

lemma audioOptions_Chrome_twice:
  "audioOptions
     [[(''application.name'', JStr ''Chrome''), (''application.process.id'', JStr ''1'')],
      [(''application.name'', JStr ''Chrome''), (''application.process.id'', JStr ''2'')]]
     False =
   Inr [\<lparr>name = JStr ''None'', val = Special NoneSource\<rparr>,
        \<lparr>name = JStr ''Entire System'', val = Special EntireSystem\<rparr>,
        \<lparr>name = JStr ''Chrome'', val = ANode [(''application.name'', JStr ''Chrome'')]\<rparr>]"
  by (simp add: audioOptions_def specialSources_def Let_def get_def nodeItem_def
      filterIndexed_def uniqueName_def findIndex_def)

subsection \<open>Stream quality\<close>

lemma widths:
  "map (\<lambda>r. Math_round (of_int (NumberResolution r) * (16 / 9))) [R480, R720, R1080, R1440] =
   [853, 1280, 1920, 2560]"
  by (simp add: Math_round_def floor_eq_iff)

text \<open>
  An error of up to a tenth in the product does not change the rounded width, for any
  of the four resolutions.
\<close>

lemma Math_round_stable:
  assumes "\<bar>d\<bar> \<le> 1 / 10"
  shows "Math_round (of_int (NumberResolution r) * (16 / 9) + d) =
         Math_round (of_int (NumberResolution r) * (16 / 9))"
proof (cases r)
  case R480
  have "Math_round (480 * (16 / 9) + d) = 853"
    using assms by (simp add: Math_round_def floor_eq_iff) linarith
  moreover have "Math_round (480 * (16 / 9)) = 853"
    by (simp add: Math_round_def floor_eq_iff)
  ultimately show ?thesis using R480 by simp
next
  case R720
  have "Math_round (720 * (16 / 9) + d) = 1280"
    using assms by (simp add: Math_round_def floor_eq_iff) linarith
  moreover have "Math_round (720 * (16 / 9)) = 1280"
    by (simp add: Math_round_def floor_eq_iff)
  ultimately show ?thesis using R720 by simp
next
  case R1080
  have "Math_round (1080 * (16 / 9) + d) = 1920"
    using assms by (simp add: Math_round_def floor_eq_iff) linarith
  moreover have "Math_round (1080 * (16 / 9)) = 1920"
    by (simp add: Math_round_def floor_eq_iff)
  ultimately show ?thesis using R1080 by simp
next
  case R1440
  have "Math_round (1440 * (16 / 9) + d) = 2560"
    using assms by (simp add: Math_round_def floor_eq_iff) linarith
  moreover have "Math_round (1440 * (16 / 9)) = 2560"
    by (simp add: Math_round_def floor_eq_iff)
  ultimately show ?thesis using R1440 by simp
qed

text \<open>The same numbers are written into the connection of the local user (lines 633-645).\<close>

lemma patchConnection_1080_60:
  assumes "resolution s = R1080" and "fps s = F60"
  shows "patchConnection uid s
           [\<lparr>streamUserId = uid, videoStreamParameters = p # ps, getVideoTracks = ts\<rparr>] =
         Inr [\<lparr>streamUserId = uid,
               videoStreamParameters =
                 p\<lparr>maxFrameRate := 60, maxResolutionHeight := 1080,
                   maxResolutionWidth := 1920\<rparr> # ps,
               getVideoTracks = ts\<rparr>]"
  using assms by (simp add: patchConnection_def Let_def Math_round_def floor_eq_iff)

text \<open>
  Claim C4. With resolution "1080" and fps "60" as current settings, whatever the other
  settings are, \<open>patchStreamQuality\<close> sets the three bitrate fields to 500000, 8000000
  and 600000 and, for an options object with a \<open>capture\<close> sub-object, writes frame rate
  60, width 1920, height 1080 and pixel count 1080 * 1920 into \<open>capture\<close> and into
  \<open>encode\<close> where there is one. The three bitrate values are the same for every
  settings value \<open>s'\<close>, whatever its resolution and fps.
\<close>

theorem patchStreamQuality_1080_60:
  "(resolution s = R1080 \<and> fps s = F60 \<longrightarrow>
      bitrateMin (fst (patchStreamQuality (Some s) opts)) = Some 500000 \<and>
      bitrateMax (fst (patchStreamQuality (Some s) opts)) = Some 8000000 \<and>
      bitrateTarget (fst (patchStreamQuality (Some s) opts)) = Some 600000 \<and>
      (\<forall>c. capture opts = Some c \<longrightarrow>
         patchStreamQuality (Some s) opts =
           (opts\<lparr>bitrateMin := Some 500000, bitrateMax := Some 8000000,
                  bitrateTarget := Some 600000,
                  encode := map_option
                    (\<lambda>e. e\<lparr>framerate := Some 60, width := Some 1920, height := Some 1080,
                            pixelCount := Some (1080 * 1920)\<rparr>) (encode opts),
                  capture := Some (c\<lparr>framerate := Some 60, width := Some 1920,
                            height := Some 1080, pixelCount := Some (1080 * 1920)\<rparr>)\<rparr>,
            None))) \<and>
   bitrateMin (fst (patchStreamQuality (Some s') opts)) = Some 500000 \<and>
   bitrateMax (fst (patchStreamQuality (Some s') opts)) = Some 8000000 \<and>
   bitrateTarget (fst (patchStreamQuality (Some s') opts)) = Some 600000"
  by (auto simp: patchStreamQuality_def Let_def assignVideo_def Math_round_def floor_eq_iff
      split: option.splits)

theorem patchStreamQuality_1080_60_witness:
  "resolution \<lparr>resolution = R1080, fps = F60, audio = True, audioSources = None,
                contentHint = Some ''motion''\<rparr> = R1080 \<and>
   fps \<lparr>resolution = R1080, fps = F60, audio = True, audioSources = None,
         contentHint = Some ''motion''\<rparr> = F60 \<and>
   capture \<lparr>bitrateMin = None, bitrateMax = None, bitrateTarget = None, encode = None,
             capture = Some \<lparr>framerate = Some 30, width = None, height = None,
                              pixelCount = None\<rparr>\<rparr> =
     Some \<lparr>framerate = Some 30, width = None, height = None, pixelCount = None\<rparr> \<and>
   patchStreamQuality
     (Some \<lparr>resolution = R1080, fps = F60, audio = True, audioSources = None,
            contentHint = Some ''motion''\<rparr>)
     \<lparr>bitrateMin = None, bitrateMax = None, bitrateTarget = None, encode = None,
      capture = Some \<lparr>framerate = Some 30, width = None, height = None,
                       pixelCount = None\<rparr>\<rparr> =
   (\<lparr>bitrateMin = Some 500000, bitrateMax = Some 8000000, bitrateTarget = Some 600000,
     encode = None,
     capture = Some \<lparr>framerate = Some 60, width = Some 1920, height = Some 1080,
                      pixelCount = Some 2073600\<rparr>\<rparr>, None)"
  using patchStreamQuality_1080_60
    [of "\<lparr>resolution = R1080, fps = F60, audio = True, audioSources = None,
           contentHint = Some ''motion''\<rparr>"
        "\<lparr>bitrateMin = None, bitrateMax = None, bitrateTarget = None, encode = None,
          capture = Some \<lparr>framerate = Some 30, width = None, height = None,
                           pixelCount = None\<rparr>\<rparr>"]
  by simp

text \<open>
  Claim C9. Without current settings \<open>patchStreamQuality\<close> returns the options object
  as it was and throws nothing. With current settings the three bitrate fields are
  overwritten in every case; the \<open>encode\<close> sub-object stays missing when it was
  missing, and when it is there it gets frame rate, width, height and pixel count,
  its other content kept.
\<close>

theorem patchStreamQuality_encode_guard:
  "patchStreamQuality None opts = (opts, None) \<and>
   bitrateMin (fst (patchStreamQuality (Some s) opts)) = Some 500000 \<and>
   bitrateMax (fst (patchStreamQuality (Some s) opts)) = Some 8000000 \<and>
   bitrateTarget (fst (patchStreamQuality (Some s) opts)) = Some 600000 \<and>
   (encode opts = None \<longrightarrow> encode (fst (patchStreamQuality (Some s) opts)) = None) \<and>
   (\<forall>e. encode opts = Some e \<longrightarrow>
      encode (fst (patchStreamQuality (Some s) opts)) =
        Some (e\<lparr>framerate := Some (NumberFps (fps s)),
                width := Some (Math_round (of_int (NumberResolution (resolution s)) * (16 / 9))),
                height := Some (NumberResolution (resolution s)),
                pixelCount := Some (NumberResolution (resolution s) *
                   Math_round (of_int (NumberResolution (resolution s)) * (16 / 9)))\<rparr>))"
  by (auto simp: patchStreamQuality_def Let_def assignVideo_def split: option.splits)

theorem patchStreamQuality_encode_guard_witness:
  "encode \<lparr>bitrateMin = Some 1, bitrateMax = Some 2, bitrateTarget = Some 3,
            encode = Some \<lparr>framerate = None, width = None, height = None, pixelCount = None\<rparr>,
            capture = Some \<lparr>framerate = None, width = None, height = None,
                             pixelCount = None\<rparr>\<rparr> =
     Some \<lparr>framerate = None, width = None, height = None, pixelCount = None\<rparr> \<and>
   encode (fst (patchStreamQuality
     (Some \<lparr>resolution = R720, fps = F30, audio = False, audioSources = None,
            contentHint = None\<rparr>)
     \<lparr>bitrateMin = Some 1, bitrateMax = Some 2, bitrateTarget = Some 3,
      encode = Some \<lparr>framerate = None, width = None, height = None, pixelCount = None\<rparr>,
      capture = Some \<lparr>framerate = None, width = None, height = None,
                       pixelCount = None\<rparr>\<rparr>)) =
     Some \<lparr>framerate = Some 30, width = Some 1280, height = Some 720,
           pixelCount = Some 921600\<rparr> \<and>
   encode \<lparr>bitrateMin = Some 1, bitrateMax = Some 2, bitrateTarget = Some 3, encode = None,
            capture = None\<rparr> = None \<and>
   encode (fst (patchStreamQuality
     (Some \<lparr>resolution = R720, fps = F30, audio = False, audioSources = None,
            contentHint = None\<rparr>)
     \<lparr>bitrateMin = Some 1, bitrateMax = Some 2, bitrateTarget = Some 3, encode = None,
      capture = None\<rparr>)) = None"
  using patchStreamQuality_encode_guard
    [of "\<lparr>bitrateMin = Some 1, bitrateMax = Some 2, bitrateTarget = Some 3,
           encode = Some \<lparr>framerate = None, width = None, height = None, pixelCount = None\<rparr>,
           capture = Some \<lparr>framerate = None, width = None, height = None,
                            pixelCount = None\<rparr>\<rparr>"
        "\<lparr>resolution = R720, fps = F30, audio = False, audioSources = None,
           contentHint = None\<rparr>"]
    patchStreamQuality_encode_guard
    [of "\<lparr>bitrateMin = Some 1, bitrateMax = Some 2, bitrateTarget = Some 3, encode = None,
           capture = None\<rparr>"
        "\<lparr>resolution = R720, fps = F30, audio = False, audioSources = None,
           contentHint = None\<rparr>"]
  by (simp add: Math_round_def floor_eq_iff)

text \<open>
  The \<open>capture\<close> sub-object is written without a test: when it is missing the call
  throws, after the bitrate fields have been set.
\<close>

lemma patchStreamQuality_no_capture:
  "capture opts = None \<Longrightarrow> snd (patchStreamQuality (Some s) opts) = Some TypeError"
  by (auto simp: patchStreamQuality_def Let_def split: option.splits)

subsection \<open>The stream-closed event\<close>

lemma split_no_sep: "c \<notin> set s \<Longrightarrow> split c s = [s]"
  by (induction s) auto

lemma split_nonempty: "split c s \<noteq> []"
  by (induction s) (auto split: list.splits)

lemma length_split: "length (split c s) = Suc (length (filter (\<lambda>x. x = c) s))"
  by (induction s) (auto split: list.splits)

lemma last_split_Cons:
  assumes "c \<in> set s"
  shows "last (split c (a # s)) = last (split c s)"
proof (cases "a = c")
  case True
  then show ?thesis by (simp add: split_nonempty)
next
  case False
  have "filter (\<lambda>x. x = c) s \<noteq> []"
    using assms by (simp add: filter_empty_conv)
  then have "2 \<le> length (split c s)"
    by (cases "filter (\<lambda>x. x = c) s") (simp_all add: length_split)
  then obtain w w' ws where "split c s = w # w' # ws"
    by (cases "split c s" rule: remdups_adj.cases) auto
  with False show ?thesis by simp
qed

text \<open>The last piece of a key is what follows its last separator.\<close>

lemma last_split_append: "c \<notin> set owner \<Longrightarrow> last (split c (pre @ c # owner)) = owner"
proof (induction pre)
  case Nil
  then show ?case by (simp add: split_no_sep)
next
  case (Cons a pre)
  have "c \<in> set (pre @ c # owner)" by simp
  then have "last (split c (a # pre @ c # owner)) = last (split c (pre @ c # owner))"
    by (rule last_split_Cons)
  with Cons show ?case by simp
qed

text \<open>
  Claim C8. For a stream key that ends in a colon followed by the owner (the owner
  itself without a colon), and equally for a key without any colon, which is its own
  owner, the subscriber calls \<open>stop\<close> once when the owner is the current user and makes
  no call otherwise. For every key, \<open>stop\<close> is called exactly when the last piece of
  the key is the identifier of the current user, and never more than once.
\<close>

theorem onStreamClose_owner:
  "(CHR '':'' \<notin> set owner \<longrightarrow>
      onStreamClose uid (pre @ CHR '':'' # owner) = (if owner = uid then [Stop] else [])) \<and>
   (CHR '':'' \<notin> set key \<longrightarrow>
      onStreamClose uid key = (if key = uid then [Stop] else [])) \<and>
   (Stop \<in> set (onStreamClose uid key) \<longleftrightarrow> last (split CHR '':'' key) = uid) \<and>
   length (onStreamClose uid key) \<le> 1"
  by (simp add: onStreamClose_def at_last_def split_nonempty last_split_append split_no_sep)

theorem onStreamClose_owner_witness:
  "CHR '':'' \<notin> set ''42'' \<and>
   onStreamClose ''42'' (''call:7'' @ CHR '':'' # ''42'') = [Stop] \<and>
   CHR '':'' \<notin> set ''43'' \<and>
   onStreamClose ''42'' (''call:7'' @ CHR '':'' # ''43'') = []"
  using onStreamClose_owner [of "''42''" "''42''" "''call:7''" "''42''"]
    onStreamClose_owner [of "''43''" "''42''" "''call:7''" "''43''"]
  by simp

subsection \<open>Applying the constraints after the delay\<close>

text \<open>Without a connection of the current user the callback does nothing.\<close>

lemma applyConstraintsLater_no_connection:
  "\<forall>c \<in> set connections. streamUserId c \<noteq> uid \<Longrightarrow>
   applyConstraintsLater ac uid s connections = Inr []"
proof -
  assume "\<forall>c \<in> set connections. streamUserId c \<noteq> uid"
  then have "find (\<lambda>connection. streamUserId connection = uid) connections = None"
    by (simp add: find_None_iff)
  then show ?thesis by (simp add: applyConstraintsLater_def)
qed

text \<open>
  With a video track, a rejection of \<open>applyConstraints\<close> is caught and logged: the
  callback completes with one log line, whether the constraints are accepted or not.
\<close>

lemma applyConstraintsLater_with_track:
  "applyConstraintsLater ac uid s
     (\<lparr>streamUserId = uid, videoStreamParameters = ps, getVideoTracks = track # tracks\<rparr> # cs) =
   Inr [if ac track
           (newConstraints track (NumberFps (fps s))
              (Math_round (of_int (NumberResolution (resolution s)) * (16 / 9)))
              (NumberResolution (resolution s)))
        then LogInfo ''Applied constraints successfully. New constraints:''
        else LogError ''Failed to apply constraints.'']"
  by (simp add: applyConstraintsLater_def Let_def)

text \<open>
  Claim C3, at the input where the code departs from it. The connection of the current
  user is there, and its input stream has no video track. \<open>track\<close> is then
  \<open>undefined\<close>, and \<^verbatim>\<open>track.getConstraints()\<close> at line 661, which is outside the
  \<open>try\<close> of line 669, throws a \<open>TypeError\<close>: the callback does not complete as a no-op,
  its promise is rejected.
\<close>

theorem applyConstraintsLater_no_track:
  "applyConstraintsLater ac uid s
     [\<lparr>streamUserId = uid, videoStreamParameters = ps, getVideoTracks = []\<rparr>] =
   Inl TypeError"
  by (simp add: applyConstraintsLater_def)

end
